theory Spec2Isabelle
  imports Complex_Main "HOL-Library.Word"
begin

unbundle bit_operations_syntax

section \<open>The host's numbers: Python floats\<close>

text \<open>
  A Lox number is a Python \<open>float\<close>, an IEEE 754 binary64 value. It is modelled by its
  64-bit pattern: bit 63 is the sign, bits 62..52 the biased exponent, bits 51..0 the
  fraction. The arithmetic the interpreter uses (\<open>+\<close>, \<open>-\<close>, \<open>*\<close>, \<open>/\<close>, unary
  minus, the comparisons and \<open>str\<close>) is defined on the patterns through the exact
  rational value and rounding to nearest, ties to even. Every NaN result is the quiet
  NaN \<open>0x7FF8000000000000\<close>; nothing the interpreter can observe tells two NaNs apart.
\<close>

type_synonym float = "64 word"

definition sign_bit :: "float \<Rightarrow> bool" where
  "sign_bit x = bit x 63"

definition biased_exp :: "float \<Rightarrow> int" where
  "biased_exp x = uint (take_bit 11 (drop_bit 52 x))"

definition fraction :: "float \<Rightarrow> int" where
  "fraction x = uint (take_bit 52 x)"

definition is_nan :: "float \<Rightarrow> bool" where
  "is_nan x = (biased_exp x = 2047 \<and> fraction x \<noteq> 0)"

definition is_inf :: "float \<Rightarrow> bool" where
  "is_inf x = (biased_exp x = 2047 \<and> fraction x = 0)"

definition is_zero :: "float \<Rightarrow> bool" where
  "is_zero x = (biased_exp x = 0 \<and> fraction x = 0)"

definition make_float :: "bool \<Rightarrow> int \<Rightarrow> int \<Rightarrow> float" where
  "make_float s e m = (if s then push_bit 63 1 else 0) OR push_bit 52 (word_of_int e) OR word_of_int m"

definition nan :: float where
  "nan = make_float False 2047 (2 ^ 51)"

definition pow2 :: "int \<Rightarrow> rat" where
  "pow2 e = (if 0 \<le> e then 2 ^ nat e else 1 / 2 ^ nat (- e))"

definition pow10 :: "int \<Rightarrow> rat" where
  "pow10 e = (if 0 \<le> e then 10 ^ nat e else 1 / 10 ^ nat (- e))"

text \<open>The exact value of a finite float.\<close>

definition float_val :: "float \<Rightarrow> rat" where
  "float_val x =
     (if sign_bit x then - 1 else 1) *
     (if biased_exp x = 0 then of_int (fraction x) * pow2 (- 1074)
      else of_int (2 ^ 52 + fraction x) * pow2 (biased_exp x - 1075))"

function bitlen :: "int \<Rightarrow> int" where
  "bitlen n = (if n \<le> 0 then 0 else bitlen (n div 2) + 1)"
  by pat_completeness auto
termination
  by (relation "measure nat") auto

text \<open>\<open>ilog2 a\<close> is the integer \<open>e\<close> with \<open>2 ^ e \<le> a < 2 ^ (e + 1)\<close>, for \<open>a > 0\<close>.\<close>

definition ilog2 :: "rat \<Rightarrow> int" where
  "ilog2 a =
     (let (n, d) = quotient_of a;
          e = bitlen n - bitlen d
      in if pow2 e \<le> a then e else e - 1)"

definition round_half_even :: "rat \<Rightarrow> int" where
  "round_half_even q =
     (let f = \<lfloor>q\<rfloor>; r = q - of_int f
      in if r < 1 / 2 then f
         else if 1 / 2 < r then f + 1
         else if even f then f else f + 1)"

text \<open>
  Rounding an exact result to the nearest float. The sign \<open>zs\<close> is the sign of the
  result when it is exactly zero.
\<close>

definition round_to_float :: "bool \<Rightarrow> rat \<Rightarrow> float" where
  "round_to_float zs q =
     (if q = 0 then make_float zs 0 0
      else
        let s = (q < 0); a = \<bar>q\<bar>;
            e = max (ilog2 a) (- 1022);
            n = round_half_even (a / pow2 (e - 52));
            e' = (if n = 2 ^ 53 then e + 1 else e);
            n' = (if n = 2 ^ 53 then 2 ^ 52 else n)
        in if 1023 < e' then make_float s 2047 0
           else if n' < 2 ^ 52 then make_float s 0 n'
           else make_float s (e' + 1023) (n' - 2 ^ 52))"

definition float_neg :: "float \<Rightarrow> float" where
  "float_neg x = x XOR push_bit 63 1"

definition float_add :: "float \<Rightarrow> float \<Rightarrow> float" where
  "float_add x y =
     (if is_nan x \<or> is_nan y then nan
      else if is_inf x then (if is_inf y \<and> sign_bit x \<noteq> sign_bit y then nan else x)
      else if is_inf y then y
      else round_to_float (sign_bit x \<and> sign_bit y) (float_val x + float_val y))"

definition float_sub :: "float \<Rightarrow> float \<Rightarrow> float" where
  "float_sub x y =
     (if is_nan x \<or> is_nan y then nan
      else if is_inf x then (if is_inf y \<and> sign_bit x = sign_bit y then nan else x)
      else if is_inf y then float_neg y
      else round_to_float (sign_bit x \<and> \<not> sign_bit y) (float_val x - float_val y))"

definition float_mul :: "float \<Rightarrow> float \<Rightarrow> float" where
  "float_mul x y =
     (if is_nan x \<or> is_nan y then nan
      else if is_inf x \<or> is_inf y then
        (if is_zero x \<or> is_zero y then nan
         else make_float (sign_bit x \<noteq> sign_bit y) 2047 0)
      else round_to_float (sign_bit x \<noteq> sign_bit y) (float_val x * float_val y))"

text \<open>
  Python's \<open>x / y\<close> on floats raises \<open>ZeroDivisionError\<close> when \<open>y == 0.0\<close> (either
  zero, whatever \<open>x\<close> is): that is the result \<open>None\<close>.
\<close>

definition float_div :: "float \<Rightarrow> float \<Rightarrow> float option" where
  "float_div x y =
     (if is_zero y then None
      else if is_nan x \<or> is_nan y then Some nan
      else if is_inf x then
        (if is_inf y then Some nan else Some (make_float (sign_bit x \<noteq> sign_bit y) 2047 0))
      else if is_inf y then Some (make_float (sign_bit x \<noteq> sign_bit y) 0 0)
      else Some (round_to_float (sign_bit x \<noteq> sign_bit y) (float_val x / float_val y)))"

definition float_eq :: "float \<Rightarrow> float \<Rightarrow> bool" where
  "float_eq x y = (\<not> is_nan x \<and> \<not> is_nan y \<and> (x = y \<or> (is_zero x \<and> is_zero y)))"

definition float_lt :: "float \<Rightarrow> float \<Rightarrow> bool" where
  "float_lt x y =
     (if is_nan x \<or> is_nan y then False
      else if is_inf x then sign_bit x \<and> \<not> (is_inf y \<and> sign_bit y)
      else if is_inf y then \<not> sign_bit y
      else float_val x < float_val y)"

definition float_le :: "float \<Rightarrow> float \<Rightarrow> bool" where
  "float_le x y = (float_lt x y \<or> float_eq x y)"

text \<open>The float a Python \<open>bool\<close> compares equal to: \<open>True\<close> is 1, \<open>False\<close> is 0.\<close>

definition float_of_bool :: "bool \<Rightarrow> float" where
  "float_of_bool b = (if b then make_float False 1023 0 else 0)"

subsection \<open>\<open>str\<close> of a float\<close>

text \<open>
  \<open>str(x)\<close> is \<open>repr(x)\<close>: the shortest string of decimal digits that reads back as
  \<open>x\<close> (the one nearest to \<open>x\<close> among the shortest), in positional notation when the
  decimal point position \<open>decpt\<close> satisfies \<open>-4 < decpt \<le> 16\<close> and in exponent
  notation otherwise, with \<open>.0\<close> appended to a positional form without a fraction.
\<close>

definition digit_char :: "int \<Rightarrow> char" where
  "digit_char d = ''0123456789'' ! nat (d mod 10)"

function int_digits :: "int \<Rightarrow> string" where
  "int_digits n = (if n < 10 then [digit_char n] else int_digits (n div 10) @ [digit_char (n mod 10)])"
  by pat_completeness auto
termination
  by (relation "measure nat") auto

fun strip_zeros :: "string \<Rightarrow> string" where
  "strip_zeros ds = (if ds \<noteq> [] \<and> last ds = CHR ''0'' then strip_zeros (butlast ds) else ds)"

text \<open>\<open>dec_exp_from k e a\<close> walks \<open>e\<close> upward until \<open>a < 10 ^ (e + 1)\<close>.\<close>

fun dec_exp_from :: "nat \<Rightarrow> int \<Rightarrow> rat \<Rightarrow> int" where
  "dec_exp_from 0 e a = e"
| "dec_exp_from (Suc k) e a = (if pow10 (e + 1) \<le> a then dec_exp_from k (e + 1) a else e)"

definition dec_exp :: "rat \<Rightarrow> int" where
  "dec_exp a = dec_exp_from 640 (- 324) a"

text \<open>
  \<open>shortest k n x a e\<close> tries \<open>n\<close>, \<open>n + 1\<close>, ... significant digits (at most \<open>k\<close>
  lengths) for the positive float \<open>x\<close> of value \<open>a\<close> and decimal exponent \<open>e\<close>, and
  returns \<open>(c, p)\<close> with \<open>c * 10 ^ p\<close> the chosen decimal. Seventeen digits always
  read back, so the first equation is never reached from \<open>float_digits\<close>.
\<close>

fun shortest :: "nat \<Rightarrow> nat \<Rightarrow> float \<Rightarrow> rat \<Rightarrow> int \<Rightarrow> int \<times> int" where
  "shortest 0 n x a e = (0, 0)"
| "shortest (Suc k) n x a e =
     (let p = e - int n + 1;
          lo = \<lfloor>a / pow10 p\<rfloor>;
          lo_ok = (round_to_float False (of_int lo * pow10 p) = x);
          hi_ok = (round_to_float False (of_int (lo + 1) * pow10 p) = x);
          dl = a - of_int lo * pow10 p;
          dh = of_int (lo + 1) * pow10 p - a
      in if lo_ok \<and> hi_ok then
           (if dl < dh then (lo, p) else if dh < dl then (lo + 1, p)
            else if even lo then (lo, p) else (lo + 1, p))
         else if lo_ok then (lo, p)
         else if hi_ok then (lo + 1, p)
         else shortest k (Suc n) x a e)"

text \<open>The digits and \<open>decpt\<close> of a positive finite float: its value is \<open>0.digits * 10 ^ decpt\<close>.\<close>

definition float_digits :: "float \<Rightarrow> string \<times> int" where
  "float_digits x =
     (let a = float_val x;
          (c, p) = shortest 17 1 x a (dec_exp a);
          ds = int_digits c
      in (strip_zeros ds, int (length ds) + p))"

definition format_repr :: "string \<Rightarrow> int \<Rightarrow> string" where
  "format_repr ds decpt =
     (if decpt \<le> - 4 \<or> 16 < decpt then
        (case ds of
           [] \<Rightarrow> []
         | d # rest \<Rightarrow>
             [d] @ (if rest = [] then [] else ''.'' @ rest) @ ''e''
             @ (if decpt - 1 < 0 then ''-'' else ''+'')
             @ (if \<bar>decpt - 1\<bar> < 10 then ''0'' else [])
             @ int_digits \<bar>decpt - 1\<bar>)
      else if decpt \<le> 0 then ''0.'' @ replicate (nat (- decpt)) CHR ''0'' @ ds
      else if nat decpt < length ds then take (nat decpt) ds @ ''.'' @ drop (nat decpt) ds
      else ds @ replicate (nat decpt - length ds) CHR ''0'' @ ''.0'')"

definition float_str :: "float \<Rightarrow> string" where
  "float_str x =
     (if is_nan x then ''nan''
      else if is_inf x then (if sign_bit x then ''-inf'' else ''inf'')
      else (if sign_bit x then ''-'' else [])
           @ (if is_zero x then ''0.0''
              else (let (ds, decpt) = float_digits (if sign_bit x then float_neg x else x)
                    in format_repr ds decpt)))"

section \<open>Runtime values and syntax trees\<close>

text \<open>
  A runtime value is a Python object: \<open>None\<close>, a \<open>bool\<close>, a \<open>float\<close> or a \<open>str\<close>.
  The interpreter can also produce Python's \<open>NotImplemented\<close> singleton, which
  \<open>is_equal\<close> returns when it calls \<open>a.__eq__(b)\<close> on operands of unrelated types.
\<close>

datatype "value" = Nil | Boolean bool | Number float | String string | NotImplemented

text \<open>
  The node classes of module \<open>expr\<close>, with the fields the interpreter reads. An
  operator token and a name token are represented by their \<open>lexeme\<close>. An absent
  initializer or alternative (Python \<open>None\<close>, falsy; a node object is truthy) is
  \<open>None\<close>.
\<close>

datatype expr =
    Literal "value"
  | Grouping expr
  | Unary string expr
  | Binary expr string expr
  | Logical expr string expr
  | Variable string
  | Assign string expr

datatype stmt =
    ExprStmt expr
  | VarDeclaration string "expr option"
  | Print expr
  | IfStmt expr stmt "stmt option"
  | WhileStmt expr stmt
  | Block "stmt list"

text \<open>
  The exceptions the interpreter raises that are instances of \<open>RuntimeError\<close>.
  \<open>NotImplementedError\<close> is raised by \<open>visit_Unary\<close> on an unknown operator (it
  carries the operator's lexeme here; Python's class is a subclass of \<open>RuntimeError\<close>).

  Modelled from the spec: \<open>ErrorHandler.error(node, message)\<close> of module
  \<open>error_handler\<close>, which signals the runtime failure \<open>TypeError\<close> with the given
  message; it is caught by \<open>interpret\<close> like every runtime failure.
\<close>

datatype error = TypeError string | NotImplementedError string

section \<open>The environment: a \<open>ChainMap\<close>\<close>

text \<open>
  \<open>collections.ChainMap\<close> holds a list \<open>maps\<close> of dictionaries, never empty, the
  innermost first. The dictionaries are objects shared between a \<open>ChainMap\<close> and its
  children, so they live in a store, addressed by natural numbers; a \<open>ChainMap\<close> is
  the address of its first dictionary and the addresses of the others.
\<close>

datatype chainmap = ChainMap (first: nat) (parents: "nat list")

definition maps :: "chainmap \<Rightarrow> nat list" where
  "maps c = first c # parents c"

type_synonym dict = "string \<rightharpoonup> value"

record state =
  heap :: "nat \<Rightarrow> dict"
  fresh :: nat
  env :: chainmap
  out :: "string list"
  reported :: "error list"

text \<open>
  \<open>heap\<close> is the store of dictionaries and \<open>fresh\<close> the next unused address;
  \<open>env\<close> is \<open>self.env\<close>; \<open>out\<close> is standard output, one entry for each call of
  \<open>print\<close>; \<open>reported\<close> holds the errors handed to the error sink.

  Modelled from the spec: \<open>ErrorHandler.runtime_error(error)\<close> of module
  \<open>error_handler\<close>, which forwards the failure to the external error sink; the sink is
  the list \<open>reported\<close>.
\<close>

text \<open>\<open>Interpreter.__init__\<close>: \<open>self.env = ChainMap()\<close>, one empty dictionary.\<close>

definition init :: state where
  "init = \<lparr>heap = (\<lambda>a. Map.empty), fresh = 1, env = ChainMap 0 [], out = [], reported = []\<rparr>"

text \<open>\<open>ChainMap.__getitem__\<close> searches the dictionaries in order and takes the first hit.\<close>

fun chain_lookup :: "(nat \<Rightarrow> dict) \<Rightarrow> nat list \<Rightarrow> string \<Rightarrow> value option" where
  "chain_lookup h [] k = None"
| "chain_lookup h (a # as) k =
     (case h a k of Some v \<Rightarrow> Some v | None \<Rightarrow> chain_lookup h as k)"

text \<open>
  \<open>ChainMap.get(key)\<close> is \<open>self[key] if key in self else None\<close>: a missing key
  gives \<open>None\<close>, it does not raise.
\<close>

definition chain_get :: "state \<Rightarrow> string \<Rightarrow> value" where
  "chain_get st k =
     (case chain_lookup (heap st) (maps (env st)) k of Some v \<Rightarrow> v | None \<Rightarrow> Nil)"

text \<open>\<open>ChainMap.__setitem__\<close> is \<open>self.maps[0][key] = value\<close>: it writes the first dictionary only.\<close>

definition setitem :: "string \<Rightarrow> value \<Rightarrow> state \<Rightarrow> state" where
  "setitem k v st =
     st\<lparr>heap := (heap st)(first (env st) := (heap st (first (env st)))(k \<mapsto> v))\<rparr>"

text \<open>
  \<open>ChainMap.new_child()\<close> is \<open>ChainMap({}, *self.maps)\<close>: a new empty dictionary in
  front of the same dictionaries.
\<close>

definition new_child :: "state \<Rightarrow> chainmap \<times> state" where
  "new_child st =
     (ChainMap (fresh st) (maps (env st)),
      st\<lparr>heap := (heap st)(fresh st := Map.empty), fresh := Suc (fresh st)\<rparr>)"

section \<open>The interpreter\<close>

definition is_truthy :: "value \<Rightarrow> bool" where
  "is_truthy v = (case v of Nil \<Rightarrow> False | Boolean b \<Rightarrow> b | _ \<Rightarrow> True)"

text \<open>
  \<open>a.__eq__(b)\<close> by the class of \<open>a\<close>: \<open>float.__eq__\<close> compares with a float or an
  \<open>int\<close> (a \<open>bool\<close> is an \<open>int\<close>), \<open>bool.__eq__\<close> is \<open>int.__eq__\<close> and compares
  with a \<open>bool\<close>, \<open>str.__eq__\<close> compares with a \<open>str\<close>, and \<open>object.__eq__\<close> (of
  \<open>NotImplemented\<close> and \<open>None\<close>) is identity. Every other pair gives the object
  \<open>NotImplemented\<close>.
\<close>

definition dunder_eq :: "value \<Rightarrow> value \<Rightarrow> value" where
  "dunder_eq a b =
     (case a of
        Number x \<Rightarrow>
          (case b of
             Number y \<Rightarrow> Boolean (float_eq x y)
           | Boolean c \<Rightarrow> Boolean (float_eq x (float_of_bool c))
           | _ \<Rightarrow> NotImplemented)
      | Boolean c \<Rightarrow> (case b of Boolean d \<Rightarrow> Boolean (c = d) | _ \<Rightarrow> NotImplemented)
      | String s \<Rightarrow> (case b of String t \<Rightarrow> Boolean (s = t) | _ \<Rightarrow> NotImplemented)
      | NotImplemented \<Rightarrow> (case b of NotImplemented \<Rightarrow> Boolean True | _ \<Rightarrow> NotImplemented)
      | Nil \<Rightarrow> (case b of Nil \<Rightarrow> Boolean True | _ \<Rightarrow> NotImplemented))"

definition is_equal :: "value \<Rightarrow> value \<Rightarrow> value" where
  "is_equal a b =
     (if a = Nil \<and> b = Nil then Boolean True
      else if a = Nil then Boolean False
      else dunder_eq a b)"

text \<open>
  Python's \<open>not\<close>: \<open>None\<close>, \<open>False\<close>, a zero float and the empty string are
  falsy. \<open>not NotImplemented\<close> is \<open>False\<close> (the object is truthy; Python 3.9 to
  3.13 add a deprecation warning).
\<close>

definition py_not :: "value \<Rightarrow> value" where
  "py_not v =
     (case v of
        Nil \<Rightarrow> Boolean True
      | Boolean b \<Rightarrow> Boolean (\<not> b)
      | Number x \<Rightarrow> Boolean (is_zero x)
      | String s \<Rightarrow> Boolean (s = [])
      | NotImplemented \<Rightarrow> Boolean False)"

definition check_numeric_operands :: "value \<Rightarrow> value \<Rightarrow> error + float \<times> float" where
  "check_numeric_operands left right =
     (case (left, right) of
        (Number x, Number y) \<Rightarrow> Inr (x, y)
      | _ \<Rightarrow> Inl (TypeError ''operands must be numbers''))"

definition check_numeric_operand :: "value \<Rightarrow> error + float" where
  "check_numeric_operand v =
     (case v of Number x \<Rightarrow> Inr x | _ \<Rightarrow> Inl (TypeError ''operand must be a number''))"

definition strip_dot0 :: "string \<Rightarrow> string" where
  "strip_dot0 t =
     (if 2 \<le> length t \<and> drop (length t - 2) t = ''.0'' then take (length t - 2) t else t)"

text \<open>\<open>str\<close> of a \<open>bool\<close> is \<open>True\<close> or \<open>False\<close>, of a \<open>str\<close> the string itself.\<close>

definition stringify :: "value \<Rightarrow> string" where
  "stringify v =
     (case v of
        Nil \<Rightarrow> ''nil''
      | Number x \<Rightarrow> strip_dot0 (float_str x)
      | Boolean b \<Rightarrow> (if b then ''True'' else ''False'')
      | String s \<Rightarrow> s
      | NotImplemented \<Rightarrow> ''NotImplemented'')"

text \<open>
  The operator part of \<open>visit_Binary\<close>, after both operands are evaluated. The
  \<open>match\<close> has no default case: an unknown operator gives \<open>None\<close>. For \<open>/\<close> the
  \<open>ZeroDivisionError\<close> is caught, \<open>print('ZeroDivisionError:', error)\<close> writes one
  line (the message of CPython up to 3.13) and the method returns \<open>None\<close>.
\<close>

definition numeric :: "(float \<Rightarrow> float \<Rightarrow> value) \<Rightarrow> value \<Rightarrow> value \<Rightarrow> state
    \<Rightarrow> (error + value) \<times> state" where
  "numeric f left right st =
     (case check_numeric_operands left right of
        Inl e \<Rightarrow> (Inl e, st)
      | Inr (x, y) \<Rightarrow> (Inr (f x y), st))"

definition binary_op :: "string \<Rightarrow> value \<Rightarrow> value \<Rightarrow> state \<Rightarrow> (error + value) \<times> state" where
  "binary_op operator left right st =
     (if operator = ''-'' then numeric (\<lambda>x y. Number (float_sub x y)) left right st
      else if operator = ''/'' then
        (case check_numeric_operands left right of
           Inl e \<Rightarrow> (Inl e, st)
         | Inr (x, y) \<Rightarrow>
             (case float_div x y of
                Some q \<Rightarrow> (Inr (Number q), st)
              | None \<Rightarrow>
                  (Inr Nil, st\<lparr>out := out st @ [''ZeroDivisionError: float division by zero'']\<rparr>)))
      else if operator = ''*'' then numeric (\<lambda>x y. Number (float_mul x y)) left right st
      else if operator = ''+'' then
        (case (left, right) of
           (String s, String t) \<Rightarrow> (Inr (String (s @ t)), st)
         | _ \<Rightarrow> numeric (\<lambda>x y. Number (float_add x y)) left right st)
      else if operator = ''>'' then numeric (\<lambda>x y. Boolean (float_lt y x)) left right st
      else if operator = ''>='' then numeric (\<lambda>x y. Boolean (float_le y x)) left right st
      else if operator = ''<'' then numeric (\<lambda>x y. Boolean (float_lt x y)) left right st
      else if operator = ''<='' then numeric (\<lambda>x y. Boolean (float_le x y)) left right st
      else if operator = ''!='' then (Inr (py_not (is_equal left right)), st)
      else if operator = ''=='' then (Inr (is_equal left right), st)
      else (Inr Nil, st))"

text \<open>
  The expression visitors. A result is \<open>Inl\<close> of the exception raised or \<open>Inr\<close> of
  the value returned, with the state at that point.
\<close>

fun eval :: "expr \<Rightarrow> state \<Rightarrow> (error + value) \<times> state" where
  "eval (Literal v) st = (Inr v, st)"
| "eval (Grouping e) st = eval e st"
| "eval (Unary op e) st =
     (case eval e st of
        (Inl err, st1) \<Rightarrow> (Inl err, st1)
      | (Inr right, st1) \<Rightarrow>
          if op = ''-'' then
            (case check_numeric_operand right of
               Inl err \<Rightarrow> (Inl err, st1)
             | Inr x \<Rightarrow> (Inr (Number (float_neg x)), st1))
          else if op = ''!'' then (Inr (Boolean (\<not> is_truthy right)), st1)
          else (Inl (NotImplementedError op), st1))"
| "eval (Binary l op r) st =
     (case eval l st of
        (Inl err, st1) \<Rightarrow> (Inl err, st1)
      | (Inr left, st1) \<Rightarrow>
          (case eval r st1 of
             (Inl err, st2) \<Rightarrow> (Inl err, st2)
           | (Inr right, st2) \<Rightarrow> binary_op op left right st2))"
| "eval (Logical l op r) st =
     (case eval l st of
        (Inl err, st1) \<Rightarrow> (Inl err, st1)
      | (Inr left, st1) \<Rightarrow>
          if op = ''or'' then (if is_truthy left then (Inr left, st1) else eval r st1)
          else if op = ''and'' then (if is_truthy left then eval r st1 else (Inr left, st1))
          else (Inr Nil, st1))"
| "eval (Variable name) st = (Inr (chain_get st name), st)"
| "eval (Assign name e) st =
     (case eval e st of
        (Inl err, st1) \<Rightarrow> (Inl err, st1)
      | (Inr v, st1) \<Rightarrow> (Inr v, setitem name v st1))"

text \<open>
  The statement visitors. A \<open>while\<close> loop may run forever, so execution takes fuel:
  the result is \<open>None\<close> when the fuel runs out, and otherwise \<open>Inl\<close> of the
  exception raised or \<open>Inr ()\<close> on normal completion, with the state at that point.
  \<open>exec_list\<close> is \<open>for stmt in node: self.visit(stmt)\<close>.
\<close>

fun exec :: "nat \<Rightarrow> stmt \<Rightarrow> state \<Rightarrow> ((error + unit) \<times> state) option"
  and exec_list :: "nat \<Rightarrow> stmt list \<Rightarrow> state \<Rightarrow> ((error + unit) \<times> state) option"
  and execute_Block :: "nat \<Rightarrow> stmt list \<Rightarrow> chainmap \<Rightarrow> state \<Rightarrow> ((error + unit) \<times> state) option"
where
  "exec 0 s st = None"
| "exec (Suc n) (ExprStmt e) st =
     (case eval e st of
        (Inl err, st1) \<Rightarrow> Some (Inl err, st1)
      | (Inr v, st1) \<Rightarrow> Some (Inr (), st1))"
| "exec (Suc n) (VarDeclaration name ini) st =
     (case ini of
        Some e \<Rightarrow>
          (case eval e st of
             (Inl err, st1) \<Rightarrow> Some (Inl err, st1)
           | (Inr v, st1) \<Rightarrow> Some (Inr (), setitem name v st1))
      | None \<Rightarrow> Some (Inr (), setitem name Nil st))"
| "exec (Suc n) (Print e) st =
     (case eval e st of
        (Inl err, st1) \<Rightarrow> Some (Inl err, st1)
      | (Inr v, st1) \<Rightarrow> Some (Inr (), st1\<lparr>out := out st1 @ [stringify v]\<rparr>))"
| "exec (Suc n) (IfStmt test consequence alternative) st =
     (case eval test st of
        (Inl err, st1) \<Rightarrow> Some (Inl err, st1)
      | (Inr v, st1) \<Rightarrow>
          if is_truthy v then exec n consequence st1
          else (case alternative of Some s \<Rightarrow> exec n s st1 | None \<Rightarrow> Some (Inr (), st1)))"
| "exec (Suc n) (WhileStmt test body) st =
     (case eval test st of
        (Inl err, st1) \<Rightarrow> Some (Inl err, st1)
      | (Inr v, st1) \<Rightarrow>
          if is_truthy v then
            (case exec n body st1 of
               None \<Rightarrow> None
             | Some (Inl err, st2) \<Rightarrow> Some (Inl err, st2)
             | Some (Inr u, st2) \<Rightarrow> exec n (WhileStmt test body) st2)
          else Some (Inr (), st1))"
| "exec (Suc n) (Block statements) st =
     (case new_child st of (child, st1) \<Rightarrow> execute_Block n statements child st1)"
| "exec_list n [] st = Some (Inr (), st)"
| "exec_list n (s # ss) st =
     (case exec n s st of
        None \<Rightarrow> None
      | Some (Inl err, st1) \<Rightarrow> Some (Inl err, st1)
      | Some (Inr u, st1) \<Rightarrow> exec_list n ss st1)"
| "execute_Block n node e st =
     (let previous = env st in
      case exec_list n node (st\<lparr>env := e\<rparr>) of
        None \<Rightarrow> None
      | Some (r, st1) \<Rightarrow> Some (r, st1\<lparr>env := previous\<rparr>))"

text \<open>
  \<open>Interpreter.interpret\<close> (the name is an Isar keyword, hence the suffix): the
  statements run in order; a \<open>RuntimeError\<close> leaves the loop and is
  handed to \<open>error_handler.runtime_error\<close>.
\<close>

definition interpret_program :: "nat \<Rightarrow> stmt list \<Rightarrow> state \<Rightarrow> state option" where
  "interpret_program n node st =
     (case exec_list n node st of
        None \<Rightarrow> None
      | Some (Inl err, st1) \<Rightarrow> Some (st1\<lparr>reported := reported st1 @ [err]\<rparr>)
      | Some (Inr u, st1) \<Rightarrow> Some st1)"

text \<open>
  Two states have the same frame when \<open>self.env\<close> is the same \<open>ChainMap\<close> and the
  error sink has received the same errors.
\<close>

definition same_frame :: "state \<Rightarrow> state \<Rightarrow> bool" where
  "same_frame st st' \<longleftrightarrow> env st' = env st \<and> reported st' = reported st"

text \<open>
  Dictionaries are created by \<open>new_child\<close> only, at the address \<open>fresh\<close>, which then
  moves on. A state is \<open>allocated\<close> when every dictionary of \<open>self.env\<close> was created
  before: its address is below \<open>fresh\<close>. The state of a new interpreter is, and
  execution keeps it so.
\<close>

definition allocated :: "state \<Rightarrow> bool" where
  "allocated st \<longleftrightarrow> (\<forall>a\<in>set (maps (env st)). a < fresh st)"

section \<open>Programs and states used as examples\<close>

text \<open>
  The state inside the block of
  \<^verbatim>\<open>var x = "outer"; var y = true; { var x = "inner"; ... }\<close>:
  dictionary 0 is the global one, dictionary 1 the block's.
\<close>

definition two_scopes :: state where
  "two_scopes =
     \<lparr>heap = (\<lambda>a. Map.empty)
        (0 := [''x'' \<mapsto> String ''outer'', ''y'' \<mapsto> Boolean True], 1 := [''x'' \<mapsto> String ''inner'']),
      fresh = 2, env = ChainMap 1 [0], out = [], reported = []\<rparr>"

text \<open>A block that declares a variable and then fails: \<^verbatim>\<open>{ var x = "inner"; -x; print x; }\<close>.\<close>

definition failing_block :: stmt where
  "failing_block =
     Block [VarDeclaration ''x'' (Some (Literal (String ''inner''))),
            ExprStmt (Unary ''-'' (Variable ''x'')),
            Print (Variable ''x'')]"

text \<open>The state after \<^verbatim>\<open>print "one";\<close> on a new interpreter.\<close>

definition after_first :: state where
  "after_first = init\<lparr>out := [''one'']\<rparr>"

text \<open>\<^verbatim>\<open>{ var x; print x; }\<close>\<close>

definition shadowing_block :: stmt where
  "shadowing_block = Block [VarDeclaration ''x'' None, Print (Variable ''x'')]"

section \<open>What evaluation leaves unchanged\<close>

lemma same_frame_refl: "same_frame st st"
  by (simp add: same_frame_def)

lemma same_frame_trans: "same_frame st st1 \<Longrightarrow> same_frame st1 st2 \<Longrightarrow> same_frame st st2"
  by (simp add: same_frame_def)

lemma same_frame_setitem: "same_frame st st1 \<Longrightarrow> same_frame st (setitem k v st1)"
  by (simp add: same_frame_def setitem_def)

lemma same_frame_out: "same_frame st st1 \<Longrightarrow> same_frame st (st1\<lparr>out := t\<rparr>)"
  by (simp add: same_frame_def)

lemma numeric_frame: "numeric f l r st = (a, st1) \<Longrightarrow> st1 = st"
  by (auto simp: numeric_def split: sum.splits prod.splits)

lemma binary_op_frame: "binary_op op l r st = (a, st1) \<Longrightarrow> same_frame st st1"
  by (auto simp: binary_op_def same_frame_def dest!: numeric_frame
      split: if_splits sum.splits prod.splits option.splits "value.splits")

lemma eval_frame: "eval e st = (a, st1) \<Longrightarrow> same_frame st st1"
proof (induction e arbitrary: st a st1)
  case (Literal v)
  then show ?case by (auto simp: same_frame_refl)
next
  case (Grouping e)
  then show ?case by simp
next
  case (Unary op e)
  obtain b st2 where e: "eval e st = (b, st2)" by (cases "eval e st")
  from Unary.IH[OF e] have f: "same_frame st st2" .
  from Unary.prems e have "st1 = st2"
    by (cases b) (auto split: if_splits sum.splits)
  with f show ?case by simp
next
  case (Binary l op r)
  obtain b st2 where l: "eval l st = (b, st2)" by (cases "eval l st")
  from Binary.IH(1)[OF l] have f2: "same_frame st st2" .
  show ?case
  proof (cases b)
    case (Inl err)
    with Binary.prems l f2 show ?thesis by auto
  next
    case (Inr left)
    obtain c st3 where r: "eval r st2 = (c, st3)" by (cases "eval r st2")
    from Binary.IH(2)[OF r] f2 have f3: "same_frame st st3" by (rule same_frame_trans[rotated])
    show ?thesis
    proof (cases c)
      case (Inl err)
      with Binary.prems l r Inr f3 show ?thesis by auto
    next
      case right: (Inr right)
      with Binary.prems l r Inr have "binary_op op left right st3 = (a, st1)" by simp
      from f3 binary_op_frame[OF this] show ?thesis by (rule same_frame_trans)
    qed
  qed
next
  case (Logical l op r)
  obtain b st2 where l: "eval l st = (b, st2)" by (cases "eval l st")
  from Logical.IH(1)[OF l] have f2: "same_frame st st2" .
  show ?case
  proof (cases b)
    case (Inl err)
    with Logical.prems l f2 show ?thesis by auto
  next
    case (Inr left)
    with Logical.prems l have "st1 = st2 \<or> eval r st2 = (a, st1)"
      by (auto split: if_splits)
    then show ?thesis
    proof
      assume "st1 = st2"
      with f2 show ?thesis by simp
    next
      assume "eval r st2 = (a, st1)"
      from f2 Logical.IH(2)[OF this] show ?thesis by (rule same_frame_trans)
    qed
  qed
next
  case (Variable name)
  then show ?case by (auto simp: same_frame_refl)
next
  case (Assign name e)
  obtain b st2 where e: "eval e st = (b, st2)" by (cases "eval e st")
  from Assign.IH[OF e] have f: "same_frame st st2" .
  from Assign.prems e have "st1 = st2 \<or> (\<exists>v. st1 = setitem name v st2)"
    by (cases b) auto
  with f show ?case by (auto intro: same_frame_setitem)
qed

lemma exec_list_frame:
  assumes "\<And>s st r st'. exec n s st = Some (r, st') \<Longrightarrow> same_frame st st'"
  shows "exec_list n ss st = Some (r, st') \<Longrightarrow> same_frame st st'"
proof (induction ss arbitrary: st)
  case Nil
  then show ?case by (simp add: same_frame_refl)
next
  case (Cons s ss)
  from Cons.prems obtain b st1 where s: "exec n s st = Some (b, st1)"
    by (cases "exec n s st") auto
  from assms[OF s] have f: "same_frame st st1" .
  show ?case
  proof (cases b)
    case (Inl err)
    with Cons.prems s f show ?thesis by simp
  next
    case (Inr u)
    with Cons.prems s have "exec_list n ss st1 = Some (r, st')" by simp
    from f Cons.IH[OF this] show ?thesis by (rule same_frame_trans)
  qed
qed

lemma exec_frame: "exec n s st = Some (r, st') \<Longrightarrow> same_frame st st'"
proof (induction n arbitrary: s st r st')
  case 0
  then show ?case by simp
next
  case (Suc n)
  show ?case
  proof (cases s)
    case (ExprStmt e)
    obtain a st1 where e: "eval e st = (a, st1)" by (cases "eval e st")
    with Suc.prems ExprStmt have "st' = st1" by (cases a) auto
    with eval_frame[OF e] show ?thesis by simp
  next
    case (VarDeclaration name ini)
    show ?thesis
    proof (cases ini)
      case None
      with Suc.prems VarDeclaration show ?thesis
        by (auto intro: same_frame_setitem same_frame_refl)
    next
      case (Some e)
      obtain a st1 where e: "eval e st = (a, st1)" by (cases "eval e st")
      with Suc.prems VarDeclaration Some have "st' = st1 \<or> (\<exists>v. st' = setitem name v st1)"
        by (cases a) auto
      with eval_frame[OF e] show ?thesis by (auto intro: same_frame_setitem)
    qed
  next
    case (Print e)
    obtain a st1 where e: "eval e st = (a, st1)" by (cases "eval e st")
    with Suc.prems Print have "st' = st1 \<or> (\<exists>t. st' = st1\<lparr>out := t\<rparr>)"
      by (cases a) auto
    with eval_frame[OF e] show ?thesis by (auto intro: same_frame_out)
  next
    case (IfStmt test consequence alternative)
    obtain a st1 where e: "eval test st = (a, st1)" by (cases "eval test st")
    note f = eval_frame[OF e]
    from Suc.prems IfStmt e
    have "st' = st1 \<or> exec n consequence st1 = Some (r, st')
        \<or> (\<exists>s2. exec n s2 st1 = Some (r, st'))"
      by (cases a) (auto split: if_splits option.splits)
    with f Suc.IH show ?thesis by (auto intro: same_frame_trans)
  next
    case (WhileStmt test body)
    obtain a st1 where e: "eval test st = (a, st1)" by (cases "eval test st")
    note f = eval_frame[OF e]
    from Suc.prems WhileStmt e
    have "st' = st1 \<or> exec n body st1 = Some (r, st')
        \<or> (\<exists>st2 u. exec n body st1 = Some (Inr u, st2) \<and> exec n (WhileStmt test body) st2 = Some (r, st'))"
      by (cases a) (auto split: if_splits option.splits sum.splits)
    with f Suc.IH show ?thesis by (blast intro: same_frame_trans)
  next
    case (Block ss)
    with Suc.prems obtain st2 where
      b: "exec_list n ss (st\<lparr>heap := (heap st)(fresh st := Map.empty), fresh := Suc (fresh st),
             env := ChainMap (fresh st) (maps (env st))\<rparr>) = Some (r, st2)"
      and s': "st' = st2\<lparr>env := env st\<rparr>"
      by (auto simp: new_child_def split: option.splits)
    from exec_list_frame[OF Suc.IH b] s' show ?thesis
      by (simp add: same_frame_def)
  qed
qed

subsection \<open>Dictionaries are never reused\<close>

lemma numeric_fresh: "numeric f l r st = (a, st1) \<Longrightarrow> fresh st1 = fresh st"
  by (drule numeric_frame) simp

lemma binary_op_fresh: "binary_op op l r st = (a, st1) \<Longrightarrow> fresh st1 = fresh st"
  by (auto simp: binary_op_def dest!: numeric_frame
      split: if_splits sum.splits prod.splits option.splits "value.splits")

lemma eval_fresh: "eval e st = (a, st1) \<Longrightarrow> fresh st1 = fresh st"
proof (induction e arbitrary: st a st1)
  case (Literal v)
  then show ?case by auto
next
  case (Grouping e)
  then show ?case by simp
next
  case (Unary op e)
  obtain b st2 where e: "eval e st = (b, st2)" by (cases "eval e st")
  from Unary.prems e have "st1 = st2"
    by (cases b) (auto split: if_splits sum.splits)
  with Unary.IH[OF e] show ?case by simp
next
  case (Binary l op r)
  obtain b st2 where l: "eval l st = (b, st2)" by (cases "eval l st")
  note f2 = Binary.IH(1)[OF l]
  show ?case
  proof (cases b)
    case (Inl err)
    with Binary.prems l f2 show ?thesis by auto
  next
    case (Inr left)
    obtain c st3 where r: "eval r st2 = (c, st3)" by (cases "eval r st2")
    from Binary.IH(2)[OF r] f2 have f3: "fresh st3 = fresh st" by simp
    show ?thesis
    proof (cases c)
      case (Inl err)
      with Binary.prems l r Inr f3 show ?thesis by auto
    next
      case right: (Inr right)
      with Binary.prems l r Inr have "binary_op op left right st3 = (a, st1)" by simp
      from binary_op_fresh[OF this] f3 show ?thesis by simp
    qed
  qed
next
  case (Logical l op r)
  obtain b st2 where l: "eval l st = (b, st2)" by (cases "eval l st")
  note f2 = Logical.IH(1)[OF l]
  show ?case
  proof (cases b)
    case (Inl err)
    with Logical.prems l f2 show ?thesis by auto
  next
    case (Inr left)
    with Logical.prems l have "st1 = st2 \<or> eval r st2 = (a, st1)"
      by (auto split: if_splits)
    then show ?thesis
    proof
      assume "st1 = st2"
      with f2 show ?thesis by simp
    next
      assume "eval r st2 = (a, st1)"
      from Logical.IH(2)[OF this] f2 show ?thesis by simp
    qed
  qed
next
  case (Variable name)
  then show ?case by auto
next
  case (Assign name e)
  obtain b st2 where e: "eval e st = (b, st2)" by (cases "eval e st")
  from Assign.prems e have "st1 = st2 \<or> (\<exists>v. st1 = setitem name v st2)"
    by (cases b) auto
  with Assign.IH[OF e] show ?case by (auto simp: setitem_def)
qed

lemma exec_list_fresh:
  assumes "\<And>s st r st'. exec n s st = Some (r, st') \<Longrightarrow> fresh st \<le> fresh st'"
  shows "exec_list n ss st = Some (r, st') \<Longrightarrow> fresh st \<le> fresh st'"
proof (induction ss arbitrary: st)
  case Nil
  then show ?case by simp
next
  case (Cons s ss)
  from Cons.prems obtain b st1 where s: "exec n s st = Some (b, st1)"
    by (cases "exec n s st") auto
  from assms[OF s] have f: "fresh st \<le> fresh st1" .
  show ?case
  proof (cases b)
    case (Inl err)
    with Cons.prems s f show ?thesis by simp
  next
    case (Inr u)
    with Cons.prems s have "exec_list n ss st1 = Some (r, st')" by simp
    from f Cons.IH[OF this] show ?thesis by simp
  qed
qed

lemma exec_fresh: "exec n s st = Some (r, st') \<Longrightarrow> fresh st \<le> fresh st'"
proof (induction n arbitrary: s st r st')
  case 0
  then show ?case by simp
next
  case (Suc n)
  show ?case
  proof (cases s)
    case (ExprStmt e)
    obtain a st1 where e: "eval e st = (a, st1)" by (cases "eval e st")
    with Suc.prems ExprStmt have "st' = st1" by (cases a) auto
    with eval_fresh[OF e] show ?thesis by simp
  next
    case (VarDeclaration name ini)
    show ?thesis
    proof (cases ini)
      case None
      with Suc.prems VarDeclaration show ?thesis
        by (auto simp: setitem_def)
    next
      case (Some e)
      obtain a st1 where e: "eval e st = (a, st1)" by (cases "eval e st")
      with Suc.prems VarDeclaration Some have "st' = st1 \<or> (\<exists>v. st' = setitem name v st1)"
        by (cases a) auto
      with eval_fresh[OF e] show ?thesis by (auto simp: setitem_def)
    qed
  next
    case (Print e)
    obtain a st1 where e: "eval e st = (a, st1)" by (cases "eval e st")
    with Suc.prems Print have "st' = st1 \<or> (\<exists>t. st' = st1\<lparr>out := t\<rparr>)"
      by (cases a) auto
    with eval_fresh[OF e] show ?thesis by auto
  next
    case (IfStmt test consequence alternative)
    obtain a st1 where e: "eval test st = (a, st1)" by (cases "eval test st")
    note f = eval_fresh[OF e]
    from Suc.prems IfStmt e
    have "st' = st1 \<or> exec n consequence st1 = Some (r, st')
        \<or> (\<exists>s2. exec n s2 st1 = Some (r, st'))"
      by (cases a) (auto split: if_splits option.splits)
    with f Suc.IH show ?thesis by fastforce
  next
    case (WhileStmt test body)
    obtain a st1 where e: "eval test st = (a, st1)" by (cases "eval test st")
    note f = eval_fresh[OF e]
    from Suc.prems WhileStmt e
    have "st' = st1 \<or> exec n body st1 = Some (r, st')
        \<or> (\<exists>st2 u. exec n body st1 = Some (Inr u, st2) \<and> exec n (WhileStmt test body) st2 = Some (r, st'))"
      by (cases a) (auto split: if_splits option.splits sum.splits)
    with f Suc.IH show ?thesis by (metis order_refl order_trans)
  next
    case (Block ss)
    with Suc.prems obtain st2 where
      b: "exec_list n ss (st\<lparr>heap := (heap st)(fresh st := Map.empty), fresh := Suc (fresh st),
             env := ChainMap (fresh st) (maps (env st))\<rparr>) = Some (r, st2)"
      and s': "st' = st2\<lparr>env := env st\<rparr>"
      by (auto simp: new_child_def split: option.splits)
    from b have "fresh (st\<lparr>heap := (heap st)(fresh st := Map.empty), fresh := Suc (fresh st),
             env := ChainMap (fresh st) (maps (env st))\<rparr>) \<le> fresh st2"
      by (rule exec_list_fresh[rotated]) (rule Suc.IH)
    then have "fresh st \<le> fresh st2" by simp
    with s' show ?thesis by simp
  qed
qed

lemma exec_list_grows: "exec_list n ss st = Some (r, st') \<Longrightarrow> fresh st \<le> fresh st'"
  by (erule exec_list_fresh[rotated]) (rule exec_fresh)

lemma exec_list_same_frame: "exec_list n ss st = Some (r, st') \<Longrightarrow> same_frame st st'"
  by (erule exec_list_frame[rotated]) (rule exec_frame)

lemma allocated_init: "allocated init"
  by (simp add: allocated_def init_def maps_def)

lemma exec_allocated: "exec n s st = Some (r, st') \<Longrightarrow> allocated st \<Longrightarrow> allocated st'"
  using exec_frame [of n s st r st'] exec_fresh [of n s st r st']
  by (fastforce simp: allocated_def same_frame_def)

lemma exec_list_allocated:
  "exec_list n ss st = Some (r, st') \<Longrightarrow> allocated st \<Longrightarrow> allocated st'"
  using exec_list_same_frame [of n ss st r st'] exec_list_grows [of n ss st r st']
  by (fastforce simp: allocated_def same_frame_def)

section \<open>The environment chain\<close>

lemma chain_lookup_none:
  "(\<forall>a\<in>set ms. h a k = None) \<Longrightarrow> chain_lookup h ms k = None"
  by (induction ms) simp_all

lemma chain_lookup_innermost:
  "i < length ms \<Longrightarrow> h (ms ! i) k = Some v \<Longrightarrow> (\<forall>j<i. h (ms ! j) k = None)
     \<Longrightarrow> chain_lookup h ms k = Some v"
proof (induction ms arbitrary: i)
  case Nil
  then show ?case by simp
next
  case (Cons a ms)
  show ?case
  proof (cases i)
    case 0
    with Cons.prems show ?thesis by simp
  next
    case (Suc i')
    from Cons.prems(3) Suc have a: "h a k = None" by auto
    from Cons.prems Suc have "chain_lookup h ms k = Some v"
      by (intro Cons.IH[of i']) auto
    with a show ?thesis by simp
  qed
qed

lemma setitem_other_dict: "a \<noteq> first (env st) \<Longrightarrow> heap (setitem k v st) a = heap st a"
  by (simp add: setitem_def)

text \<open>
  C1. The claim: when no environment binds a name, an \<open>Assign\<close> to it fails with
  \<open>UndefinedVariable\<close> and creates no binding. The code: \<open>visit_Assign\<close> is
  \<open>self.env[name] = value\<close>, which never fails. On a new interpreter, where nothing
  binds \<open>x\<close>, the assignment \<^verbatim>\<open>x = "v";\<close> returns the value, binds \<open>x\<close> in the
  global dictionary, and \<^verbatim>\<open>print x;\<close> then prints it; nothing is reported.
\<close>

theorem assign_undeclared_creates_binding:
  "chain_lookup (heap init) (maps (env init)) ''x'' = None \<and>
   fst (eval (Assign ''x'' (Literal (String ''v''))) init) = Inr (String ''v'') \<and>
   heap (snd (eval (Assign ''x'' (Literal (String ''v''))) init)) 0 ''x'' = Some (String ''v'') \<and>
   map_option (\<lambda>s. (out s, reported s))
     (interpret_program 1 [ExprStmt (Assign ''x'' (Literal (String ''v''))), Print (Variable ''x'')] init)
     = Some ([''v''], [])"
  by (simp add: init_def maps_def setitem_def chain_get_def stringify_def interpret_program_def)

text \<open>
  C2. The claim: an assignment to a name bound only in an ancestor environment overwrites
  the ancestor's binding, so the outer binding holds the new value after the block. The
  code writes the innermost dictionary only: in
  \<^verbatim>\<open>var x = "outer"; { x = "inner"; print x; } print x;\<close> the block prints
  \<open>inner\<close>, and after it the global \<open>x\<close> is still \<open>outer\<close>.
\<close>

theorem assign_in_block_leaves_outer_binding:
  "map_option (\<lambda>s. (out s, reported s, heap s 0 ''x''))
     (interpret_program 3
        [VarDeclaration ''x'' (Some (Literal (String ''outer''))),
         Block [ExprStmt (Assign ''x'' (Literal (String ''inner''))), Print (Variable ''x'')],
         Print (Variable ''x'')] init)
     = Some ([''inner'', ''outer''], [], Some (String ''outer''))"
  by (simp add: eval_nat_numeral init_def maps_def setitem_def chain_get_def stringify_def
      interpret_program_def new_child_def)

text \<open>
  C3, as stated, fails: on a new interpreter, where no environment binds \<open>x\<close>, reading
  \<open>x\<close> returns \<open>nil\<close> and raises nothing.
\<close>

theorem variable_unbound_counterexample:
  "chain_lookup (heap init) (maps (env init)) ''x'' = None \<and>
   eval (Variable ''x'') init = (Inr Nil, init)"
  by (simp add: init_def maps_def chain_get_def)

text \<open>
  C3, amended: when no environment of the chain binds the name, a \<open>Variable\<close> read
  returns \<open>nil\<close> without failing; when some environment binds it, the read returns the
  binding of the innermost environment that defines it (environment \<open>i\<close> of the chain
  binds it and none before it does). The state is unchanged.
\<close>

theorem variable_read:
  "((\<forall>a\<in>set (maps (env st)). heap st a name = None) \<longrightarrow>
      eval (Variable name) st = (Inr Nil, st)) \<and>
   (i < length (maps (env st)) \<and> heap st (maps (env st) ! i) name = Some v \<and>
    (\<forall>j<i. heap st (maps (env st) ! j) name = None) \<longrightarrow>
      eval (Variable name) st = (Inr v, st))"
  by (auto simp: chain_get_def chain_lookup_none chain_lookup_innermost)

theorem variable_read_witness:
  "eval (Variable ''z'') two_scopes = (Inr Nil, two_scopes) \<and>
   eval (Variable ''y'') two_scopes = (Inr (Boolean True), two_scopes) \<and>
   eval (Variable ''x'') two_scopes = (Inr (String ''inner''), two_scopes)"
proof -
  have z: "\<forall>a\<in>set (maps (env two_scopes)). heap two_scopes a ''z'' = None"
    by (simp add: two_scopes_def maps_def)
  have y: "1 < length (maps (env two_scopes)) \<and>
      heap two_scopes (maps (env two_scopes) ! 1) ''y'' = Some (Boolean True) \<and>
      (\<forall>j<1. heap two_scopes (maps (env two_scopes) ! j) ''y'' = None)"
    by (simp add: two_scopes_def maps_def)
  have x: "0 < length (maps (env two_scopes)) \<and>
      heap two_scopes (maps (env two_scopes) ! 0) ''x'' = Some (String ''inner'') \<and>
      (\<forall>j<0. heap two_scopes (maps (env two_scopes) ! j) ''x'' = None)"
    by (simp add: two_scopes_def maps_def)
  from z y x variable_read [of two_scopes "''z''"]
    variable_read [of two_scopes "''y''" 1 "Boolean True"]
    variable_read [of two_scopes "''x''" 0 "String ''inner''"]
  show ?thesis by blast
qed

section \<open>Operators\<close>

text \<open>
  C4, as stated, fails: \<^verbatim>\<open>1 / 0\<close> raises nothing; it prints a line and its value
  is \<open>nil\<close>.
\<close>

theorem division_by_zero_counterexample:
  "is_zero 0 \<and>
   eval (Binary (Literal (Number 0x3FF0000000000000)) ''/'' (Literal (Number 0))) init =
     (Inr Nil, init\<lparr>out := [''ZeroDivisionError: float division by zero'']\<rparr>)"
  by (simp add: init_def binary_op_def check_numeric_operands_def float_div_def is_zero_def
      biased_exp_def fraction_def)

text \<open>
  C4, amended: for number operands with a zero divisor (either zero), \<open>Binary\<close> with
  \<open>/\<close> raises no failure: it prints exactly one diagnostic line, starting
  \<open>ZeroDivisionError:\<close>, to standard output, its value is \<open>nil\<close>, and the enclosing
  statement goes on with that value (a \<open>Print\<close> of it then prints \<open>nil\<close>).
\<close>

theorem division_by_zero_prints_and_continues:
  "is_zero y \<Longrightarrow>
     eval (Binary (Literal (Number x)) ''/'' (Literal (Number y))) st =
       (Inr Nil, st\<lparr>out := out st @ [''ZeroDivisionError: float division by zero'']\<rparr>) \<and>
     exec (Suc n) (Print (Binary (Literal (Number x)) ''/'' (Literal (Number y)))) st =
       Some (Inr (), st\<lparr>out := out st @ [''ZeroDivisionError: float division by zero'', ''nil'']\<rparr>)"
  by (simp add: binary_op_def check_numeric_operands_def float_div_def stringify_def)

theorem division_by_zero_prints_and_continues_witness:
  "is_zero 0x8000000000000000 \<and>
   eval (Binary (Literal (Number 0x3FF0000000000000)) ''/'' (Literal (Number 0x8000000000000000))) init =
     (Inr Nil, init\<lparr>out := [''ZeroDivisionError: float division by zero'']\<rparr>) \<and>
   exec (Suc 0) (Print (Binary (Literal (Number 0x3FF0000000000000)) ''/''
       (Literal (Number 0x8000000000000000)))) init =
     Some (Inr (), init\<lparr>out := [''ZeroDivisionError: float division by zero'', ''nil'']\<rparr>)"
proof -
  have z: "is_zero 0x8000000000000000"
    by (simp add: is_zero_def biased_exp_def fraction_def)
  from z division_by_zero_prints_and_continues [OF z, of "0x3FF0000000000000" init 0]
  show ?thesis by (simp add: init_def stringify_def)
qed

text \<open>
  C5, as stated, fails: the number 1 and the Boolean \<open>true\<close> are of different variants,
  and \<^verbatim>\<open>1 == true\<close> is \<open>true\<close>; and \<^verbatim>\<open>"a" == nil\<close> is not a Boolean at
  all, but Python's \<open>NotImplemented\<close>.
\<close>

theorem equality_counterexample:
  "eval (Binary (Literal (Number 0x3FF0000000000000)) ''=='' (Literal (Boolean True))) init =
     (Inr (Boolean True), init) \<and>
   eval (Binary (Literal (String ''a'')) ''=='' (Literal Nil)) init = (Inr NotImplemented, init)"
  by (simp add: binary_op_def is_equal_def dunder_eq_def float_eq_def float_of_bool_def
      make_float_def is_nan_def biased_exp_def fraction_def)

text \<open>
  C5, amended: \<open>==\<close> returns \<open>true\<close> when both operands are \<open>nil\<close> and \<open>false\<close>
  when the left one is \<open>nil\<close> and the right one is not; for operands of the same variant
  among number, string and Boolean it returns the Boolean of value equality (the floats'
  equality for numbers, exact match for strings and Booleans); for a number on the left
  and a Boolean on the right it returns whether the number equals 1 (for \<open>true\<close>) or 0
  (for \<open>false\<close>); it never raises; and in all these cases \<open>!=\<close> returns the negation
  of \<open>==\<close>. The other pairs of different variants are left out.
\<close>

theorem equality_rule:
  "eval (Binary (Literal Nil) ''=='' (Literal Nil)) st = (Inr (Boolean True), st) \<and>
   (b \<noteq> Nil \<longrightarrow> eval (Binary (Literal Nil) ''=='' (Literal b)) st = (Inr (Boolean False), st)) \<and>
   eval (Binary (Literal (Number x)) ''=='' (Literal (Number y))) st
     = (Inr (Boolean (float_eq x y)), st) \<and>
   eval (Binary (Literal (String s)) ''=='' (Literal (String t))) st
     = (Inr (Boolean (s = t)), st) \<and>
   eval (Binary (Literal (Boolean c)) ''=='' (Literal (Boolean d))) st
     = (Inr (Boolean (c = d)), st) \<and>
   eval (Binary (Literal (Number x)) ''=='' (Literal (Boolean d))) st
     = (Inr (Boolean (float_eq x (float_of_bool d))), st) \<and>
   (\<exists>v. eval (Binary (Literal a) ''=='' (Literal a')) st = (Inr v, st)) \<and>
   (\<exists>v. eval (Binary (Literal a) ''!='' (Literal a')) st = (Inr v, st)) \<and>
   (a = Nil \<or> (\<exists>p q. a = Number p \<and> a' = Number q) \<or> (\<exists>p q. a = String p \<and> a' = String q)
      \<or> (\<exists>p q. a = Boolean p \<and> a' = Boolean q) \<or> (\<exists>p q. a = Number p \<and> a' = Boolean q)
    \<longrightarrow> (\<exists>e. eval (Binary (Literal a) ''=='' (Literal a')) st = (Inr (Boolean e), st) \<and>
             eval (Binary (Literal a) ''!='' (Literal a')) st = (Inr (Boolean (\<not> e)), st)))"
proof -
  have eq: "\<And>u w. eval (Binary (Literal u) ''=='' (Literal w)) st = (Inr (is_equal u w), st)"
    by (simp add: binary_op_def)
  have ne: "\<And>u w. eval (Binary (Literal u) ''!='' (Literal w)) st = (Inr (py_not (is_equal u w)), st)"
    by (simp add: binary_op_def)
  have nil: "b \<noteq> Nil \<longrightarrow> is_equal Nil b = Boolean False"
    by (simp add: is_equal_def)
  have cov: "a = Nil \<or> (\<exists>p q. a = Number p \<and> a' = Number q) \<or> (\<exists>p q. a = String p \<and> a' = String q)
      \<or> (\<exists>p q. a = Boolean p \<and> a' = Boolean q) \<or> (\<exists>p q. a = Number p \<and> a' = Boolean q)
    \<longrightarrow> (\<exists>e. is_equal a a' = Boolean e)"
    by (auto simp: is_equal_def dunder_eq_def)
  have neg: "\<And>e. py_not (Boolean e) = Boolean (\<not> e)"
    by (simp add: py_not_def)
  show ?thesis
    unfolding eq ne using nil cov neg
    by (auto simp: is_equal_def dunder_eq_def)
qed

theorem equality_rule_witness:
  "eval (Binary (Literal Nil) ''=='' (Literal (Boolean False))) init = (Inr (Boolean False), init) \<and>
   eval (Binary (Literal (String ''a'')) ''=='' (Literal (String ''a''))) init = (Inr (Boolean True), init) \<and>
   eval (Binary (Literal (String ''a'')) ''!='' (Literal (String ''a''))) init = (Inr (Boolean False), init)"
proof -
  have h: "Boolean False \<noteq> Nil" by simp
  have c: "String ''a'' = Nil \<or> (\<exists>p q. String ''a'' = Number p \<and> String ''a'' = Number q)
      \<or> (\<exists>p q. String ''a'' = String p \<and> String ''a'' = String q)
      \<or> (\<exists>p q. String ''a'' = Boolean p \<and> String ''a'' = Boolean q)
      \<or> (\<exists>p q. String ''a'' = Number p \<and> String ''a'' = Boolean q)"
    by simp
  from equality_rule [where b = "Boolean False" and st = init and a = "String ''a''"
      and a' = "String ''a''" and s = "''a''" and t = "''a''" and x = 0 and y = 0
      and c = True and d = True] h c
  show ?thesis by (simp add: binary_op_def is_equal_def dunder_eq_def py_not_def)
qed

text \<open>
  C6. A \<open>Logical\<close> node whose left operand evaluates to \<open>v\<close>, leaving the state
  \<open>st1\<close>: \<open>or\<close> with a truthy \<open>v\<close>, and \<open>and\<close> with a falsy \<open>v\<close>, return \<open>v\<close>
  in the state \<open>st1\<close> whatever the right operand is, so the right operand is not
  evaluated and none of its effects occur; otherwise the result is the evaluation of the
  right operand from \<open>st1\<close>.
\<close>

theorem logical_short_circuit:
  "eval l st = (Inr v, st1) \<Longrightarrow>
     (is_truthy v \<longrightarrow> eval (Logical l ''or'' r) st = (Inr v, st1)) \<and>
     (\<not> is_truthy v \<longrightarrow> eval (Logical l ''and'' r) st = (Inr v, st1)) \<and>
     (\<not> is_truthy v \<longrightarrow> eval (Logical l ''or'' r) st = eval r st1) \<and>
     (is_truthy v \<longrightarrow> eval (Logical l ''and'' r) st = eval r st1)"
  by simp

theorem logical_short_circuit_witness:
  "eval (Logical (Literal (Boolean True)) ''or'' (Assign ''y'' (Literal (String ''set'')))) init
     = (Inr (Boolean True), init) \<and>
   eval (Logical (Literal Nil) ''and'' (Assign ''y'' (Literal (String ''set'')))) init
     = (Inr Nil, init) \<and>
   eval (Logical (Literal Nil) ''or'' (Assign ''y'' (Literal (String ''set'')))) init
     = (Inr (String ''set''), setitem ''y'' (String ''set'') init) \<and>
   heap (setitem ''y'' (String ''set'') init) 0 ''y'' \<noteq> heap init 0 ''y''"
proof -
  have t: "eval (Literal (Boolean True)) init = (Inr (Boolean True), init)" by simp
  have f: "eval (Literal Nil) init = (Inr Nil, init)" by simp
  from logical_short_circuit [OF t, of "Assign ''y'' (Literal (String ''set''))"]
    logical_short_circuit [OF f, of "Assign ''y'' (Literal (String ''set''))"]
  show ?thesis by (simp add: is_truthy_def setitem_def init_def)
qed

section \<open>Blocks and the current environment\<close>

text \<open>
  C7. Executing a \<open>Block\<close> in a state whose dictionaries are all allocated:
  \<open>new_child\<close> gives the \<open>ChainMap\<close> \<open>child\<close>, made of a new dictionary, empty and
  not among those of the current \<open>ChainMap\<close>, in front of the dictionaries of the
  current one, every other dictionary being as it was. The statements run, in order,
  with \<open>self.env = child\<close>. Whatever their outcome \<open>r\<close> (normal completion or a
  propagated failure), the block has that same outcome, in the state they left with
  \<open>self.env\<close> set back to the \<open>ChainMap\<close> it was before the block.
\<close>

theorem block_restores_environment:
  "allocated st \<Longrightarrow> new_child st = (child, st1) \<Longrightarrow>
   exec_list n ss (st1\<lparr>env := child\<rparr>) = Some (r, st2) \<Longrightarrow>
     exec (Suc n) (Block ss) st = Some (r, st2\<lparr>env := env st\<rparr>) \<and>
     env (st2\<lparr>env := env st\<rparr>) = env st \<and>
     allocated (st2\<lparr>env := env st\<rparr>) \<and>
     maps child = first child # maps (env st) \<and>
     first child \<notin> set (maps (env st)) \<and>
     heap st1 (first child) = Map.empty \<and>
     (\<forall>a. a \<noteq> first child \<longrightarrow> heap st1 a = heap st a) \<and>
     allocated (st1\<lparr>env := child\<rparr>)"
proof -
  assume al: "allocated st" and nc: "new_child st = (child, st1)"
    and run: "exec_list n ss (st1\<lparr>env := child\<rparr>) = Some (r, st2)"
  from nc have child: "child = ChainMap (fresh st) (maps (env st))"
    and st1: "st1 = st\<lparr>heap := (heap st)(fresh st := Map.empty), fresh := Suc (fresh st)\<rparr>"
    by (simp_all add: new_child_def)
  from al have notin: "fresh st \<notin> set (maps (env st))"
    by (auto simp: allocated_def)
  from al have al1: "allocated (st1\<lparr>env := child\<rparr>)"
    by (auto simp: allocated_def child st1 maps_def)
  from exec_list_grows [OF run] have "fresh st \<le> fresh st2"
    by (simp add: st1)
  with al have al2: "allocated (st2\<lparr>env := env st\<rparr>)"
    by (fastforce simp: allocated_def)
  from nc run have "exec (Suc n) (Block ss) st = Some (r, st2\<lparr>env := env st\<rparr>)"
    by (simp add: st1)
  with notin al1 al2 show ?thesis
    by (simp add: child st1 maps_def)
qed

theorem block_restores_environment_witness:
  "map_option fst (exec 2 failing_block init)
     = Some (Inl (TypeError ''operand must be a number'')) \<and>
   map_option (\<lambda>p. env (snd p)) (exec 2 failing_block init) = Some (env init) \<and>
   map_option (\<lambda>p. (fst p, env (snd p), out (snd p))) (exec 2 shadowing_block two_scopes)
     = Some (Inr (), env two_scopes, [''nil''])"
proof -
  have a1: "allocated init"
    by (simp add: allocated_def init_def maps_def)
  have a2: "allocated two_scopes"
    by (simp add: allocated_def two_scopes_def maps_def)
  obtain c1 s1 where n1: "new_child init = (c1, s1)" by (cases "new_child init")
  obtain c2 s2 where n2: "new_child two_scopes = (c2, s2)" by (cases "new_child two_scopes")
  have "map_option fst (exec_list 1 [VarDeclaration ''x'' (Some (Literal (String ''inner''))),
            ExprStmt (Unary ''-'' (Variable ''x'')), Print (Variable ''x'')] (s1\<lparr>env := c1\<rparr>))
      = Some (Inl (TypeError ''operand must be a number''))"
    using n1 by (auto simp: new_child_def init_def maps_def setitem_def chain_get_def
        check_numeric_operand_def)
  then obtain t1 where r1: "exec_list 1 [VarDeclaration ''x'' (Some (Literal (String ''inner''))),
            ExprStmt (Unary ''-'' (Variable ''x'')), Print (Variable ''x'')] (s1\<lparr>env := c1\<rparr>)
      = Some (Inl (TypeError ''operand must be a number''), t1)"
    by auto
  have "map_option (\<lambda>p. (fst p, out (snd p)))
      (exec_list 1 [VarDeclaration ''x'' None, Print (Variable ''x'')] (s2\<lparr>env := c2\<rparr>))
      = Some (Inr (), [''nil''])"
    using n2 by (auto simp: new_child_def two_scopes_def maps_def setitem_def chain_get_def
        stringify_def)
  then obtain t2 where r2: "exec_list 1 [VarDeclaration ''x'' None, Print (Variable ''x'')]
      (s2\<lparr>env := c2\<rparr>) = Some (Inr (), t2)" and o2: "out t2 = [''nil'']"
    by auto
  from block_restores_environment [OF a1 n1 r1] block_restores_environment [OF a2 n2 r2] o2
  show ?thesis
    unfolding failing_block_def shadowing_block_def
    by (simp add: eval_nat_numeral del: exec.simps)
qed

text \<open>
  C10. Evaluating an expression leaves \<open>self.env\<close> the \<open>ChainMap\<close> it was (bindings
  inside the dictionaries may change); so does executing any statement that returns, a
  \<open>Block\<close> having restored it.
\<close>

theorem expression_keeps_cursor:
  "env (snd (eval e st)) = env st \<and> (exec n s st = Some (r, st') \<longrightarrow> env st' = env st)"
proof
  obtain a st1 where e: "eval e st = (a, st1)" by (cases "eval e st")
  from eval_frame[OF e] e show "env (snd (eval e st)) = env st"
    by (simp add: same_frame_def)
next
  show "exec n s st = Some (r, st') \<longrightarrow> env st' = env st"
    by (auto dest: exec_frame simp: same_frame_def)
qed

theorem expression_keeps_cursor_witness:
  "env (snd (eval (Assign ''x'' (Logical (Variable ''y'') ''or'' (Literal (String ''v'')))) two_scopes))
     = ChainMap 1 [0] \<and>
   heap (snd (eval (Assign ''x'' (Logical (Variable ''y'') ''or'' (Literal (String ''v'')))) two_scopes)) 1 ''x''
     = Some (Boolean True) \<and>
   map_option (\<lambda>p. (fst p, env (snd p), out (snd p))) (exec 2 shadowing_block two_scopes)
     = Some (Inr (), ChainMap 1 [0], [''nil''])"
proof -
  have a: "map_option (\<lambda>p. (fst p, out (snd p))) (exec 2 shadowing_block two_scopes)
      = Some (Inr (), [''nil''])"
    by (simp add: eval_nat_numeral shadowing_block_def two_scopes_def maps_def setitem_def
        chain_get_def new_child_def stringify_def)
  then obtain st' where e: "exec 2 shadowing_block two_scopes = Some (Inr (), st')"
    and o: "out st' = [''nil'']"
    by (cases "exec 2 shadowing_block two_scopes") auto
  have h: "heap (snd (eval (Assign ''x'' (Logical (Variable ''y'') ''or'' (Literal (String ''v'')))) two_scopes)) 1 ''x''
     = Some (Boolean True)"
    by (simp add: two_scopes_def maps_def setitem_def chain_get_def is_truthy_def)
  have c: "env two_scopes = ChainMap 1 [0]" by (simp add: two_scopes_def)
  from expression_keeps_cursor [of "Assign ''x'' (Logical (Variable ''y'') ''or'' (Literal (String ''v'')))"
      two_scopes 2 shadowing_block "Inr ()" st'] e o h c
  show ?thesis by simp
qed

section \<open>Runtime failures at the top level\<close>

lemma exec_list_append_failure:
  "exec_list n pre st = Some (Inr (), st1) \<Longrightarrow> exec n s st1 = Some (Inl err, st2)
     \<Longrightarrow> exec_list n (pre @ s # post) st = Some (Inl err, st2)"
proof (induction pre arbitrary: st)
  case Nil
  then show ?case by simp
next
  case (Cons p pre)
  from Cons.prems(1) obtain b st0 where p: "exec n p st = Some (b, st0)"
    by (cases "exec n p st") auto
  with Cons.prems(1) have "b = Inr ()" and "exec_list n pre st0 = Some (Inr (), st1)"
    by (cases b; simp)+
  with p Cons.IH[OF _ Cons.prems(2), of st0] show ?case by simp
qed

lemma exec_list_reported: "exec_list n ss st = Some (r, st') \<Longrightarrow> reported st' = reported st"
  using exec_list_frame [of n ss st r st'] exec_frame by (simp add: same_frame_def)

text \<open>
  C8. When the top-level statements before statement \<open>s\<close> complete and \<open>s\<close> raises
  the failure \<open>err\<close> in the state \<open>st2\<close>, the run ends in \<open>st2\<close> with \<open>err\<close>
  added to the error sink, whatever statements follow \<open>s\<close>: they are not executed.
  Executing statements does not touch the sink, so \<open>err\<close> is the one report of the run.
\<close>

theorem failure_aborts_and_is_reported_once:
  "exec_list n pre st = Some (Inr (), st1) \<Longrightarrow> exec n s st1 = Some (Inl err, st2) \<Longrightarrow>
     interpret_program n (pre @ s # post) st = Some (st2\<lparr>reported := reported st2 @ [err]\<rparr>) \<and>
     reported st2 = reported st"
proof -
  assume pre: "exec_list n pre st = Some (Inr (), st1)" and s: "exec n s st1 = Some (Inl err, st2)"
  from exec_list_append_failure [OF pre s]
  have "interpret_program n (pre @ s # post) st = Some (st2\<lparr>reported := reported st2 @ [err]\<rparr>)"
    by (simp add: interpret_program_def)
  moreover from exec_list_reported [OF pre] exec_frame [OF s]
  have "reported st2 = reported st" by (simp add: same_frame_def)
  ultimately show ?thesis by simp
qed

theorem failure_aborts_and_is_reported_once_witness:
  "interpret_program 1
     ([Print (Literal (String ''one''))] @ ExprStmt (Binary (Literal (String ''x'')) ''-'' (Literal Nil))
        # [Print (Literal (String ''two''))]) init
     = Some (after_first\<lparr>reported := [TypeError ''operands must be numbers'']\<rparr>) \<and>
   out after_first = [''one'']"
proof -
  have pre: "exec_list 1 [Print (Literal (String ''one''))] init = Some (Inr (), after_first)"
    by (simp add: after_first_def stringify_def init_def)
  have s: "exec 1 (ExprStmt (Binary (Literal (String ''x'')) ''-'' (Literal Nil))) after_first
      = Some (Inl (TypeError ''operands must be numbers''), after_first)"
    by (simp add: binary_op_def numeric_def check_numeric_operands_def)
  from failure_aborts_and_is_reported_once [OF pre s, of "[Print (Literal (String ''two''))]"]
  show ?thesis by (simp add: after_first_def init_def)
qed

section \<open>Printing values\<close>

lemma strip_dot0_suffix: "strip_dot0 (t @ ''.0'') = t"
  by (simp add: strip_dot0_def)

lemma strip_dot0_other: "(\<nexists>u. t = u @ ''.0'') \<Longrightarrow> strip_dot0 t = t"
proof -
  assume n: "\<nexists>u. t = u @ ''.0''"
  have "\<not> (2 \<le> length t \<and> drop (length t - 2) t = ''.0'')"
  proof
    assume a: "2 \<le> length t \<and> drop (length t - 2) t = ''.0''"
    have "t = take (length t - 2) t @ drop (length t - 2) t" by simp
    with a have "t = take (length t - 2) t @ ''.0''" by simp
    with n show False by blast
  qed
  then show ?thesis unfolding strip_dot0_def by (simp only: if_False)
qed

lemma stringify_number: "stringify (Number x) = strip_dot0 (float_str x)"
  by (simp add: stringify_def)

lemma stringify_number_rule:
  "stringify (Number x) =
     (if \<exists>t. float_str x = t @ ''.0'' then butlast (butlast (float_str x)) else float_str x)"
proof (cases "\<exists>t. float_str x = t @ ''.0''")
  case True
  then obtain t where t: "float_str x = t @ ''.0''" ..
  have a: "strip_dot0 (float_str x) = t"
    unfolding t by (rule strip_dot0_suffix)
  have b: "butlast (butlast (float_str x)) = t"
    unfolding t by (simp add: butlast_append)
  from True have "(if \<exists>t. float_str x = t @ ''.0'' then butlast (butlast (float_str x))
      else float_str x) = butlast (butlast (float_str x))"
    by (rule if_P)
  with a b show ?thesis by (simp only: stringify_number)
next
  case False
  then have "(if \<exists>t. float_str x = t @ ''.0'' then butlast (butlast (float_str x))
      else float_str x) = float_str x"
    by (rule if_not_P)
  with strip_dot0_other [OF False] show ?thesis by (simp only: stringify_number)
qed

lemma stringify_others:
  "stringify Nil = ''nil''" "stringify (Boolean True) = ''True''"
  "stringify (Boolean False) = ''False''" "stringify (String s) = s"
  by (simp_all add: stringify_def)

subsection \<open>The decimal exponent of a float\<close>

lemma pow10_powi: "pow10 e = 10 powi e"
  by (simp add: pow10_def power_int_def inverse_eq_divide power_one_over)

lemma pow10_mono: "j \<le> e \<Longrightarrow> pow10 j \<le> pow10 e"
  by (simp add: pow10_powi power_int_increasing)

lemma dec_exp_from_walk:
  "\<forall>j. e < j \<and> j \<le> e' \<longrightarrow> pow10 j \<le> a \<Longrightarrow> \<not> pow10 (e' + 1) \<le> a \<Longrightarrow> e \<le> e'
     \<Longrightarrow> nat (e' - e) < k \<Longrightarrow> dec_exp_from k e a = e'"
proof (induction k arbitrary: e)
  case 0
  then show ?case by simp
next
  case (Suc k)
  show ?case
  proof (cases "e = e'")
    case True
    with Suc.prems(2) show ?thesis by simp
  next
    case False
    with Suc.prems(3) have lt: "e < e'" by simp
    with Suc.prems(1) have step: "pow10 (e + 1) \<le> a" by simp
    from Suc.prems(1) have a: "\<forall>j. e + 1 < j \<and> j \<le> e' \<longrightarrow> pow10 j \<le> a" by simp
    from lt have b: "e + 1 \<le> e'" by simp
    from lt Suc.prems(4) have c: "nat (e' - (e + 1)) < k" by simp
    from a Suc.prems(2) b c have "dec_exp_from k (e + 1) a = e'"
      by (rule Suc.IH)
    with step show ?thesis by simp
  qed
qed

lemma dec_exp_between:
  assumes "pow10 e \<le> a" and "a < pow10 (e + 1)" and "- 324 \<le> e" and "e < 316"
  shows "dec_exp a = e"
proof -
  have "\<forall>j. - 324 < j \<and> j \<le> e \<longrightarrow> pow10 j \<le> a"
  proof (intro allI impI)
    fix j :: int
    assume "- 324 < j \<and> j \<le> e"
    then have "pow10 j \<le> pow10 e" by (simp add: pow10_mono)
    with assms(1) show "pow10 j \<le> a" by simp
  qed
  moreover from assms(2) have "\<not> pow10 (e + 1) \<le> a" by simp
  moreover from assms(3,4) have "nat (e - (- 324)) < 640" by simp
  ultimately show ?thesis
    unfolding dec_exp_def using assms(3) by (intro dec_exp_from_walk)
qed

subsection \<open>\<open>str(3.0)\<close> and \<open>str(0.1)\<close>\<close>

lemma float_val_3: "float_val 0x4008000000000000 = 3"
  by code_simp

lemma dec_exp_3: "dec_exp 3 = 0"
  by (rule dec_exp_between) (simp_all add: pow10_def)

lemma shortest_3: "shortest 17 1 0x4008000000000000 3 0 = (3, 0)"
  by code_simp

lemma digits_3: "(strip_zeros (int_digits 3), int (length (int_digits 3)) + 0) = (''3'', 1)"
  by code_simp

lemma format_3: "format_repr ''3'' 1 = ''3.0''"
  by code_simp

lemma flags_3: "\<not> is_nan 0x4008000000000000 \<and> \<not> is_inf 0x4008000000000000 \<and>
    \<not> sign_bit 0x4008000000000000 \<and> \<not> is_zero 0x4008000000000000"
  by code_simp

lemma float_digits_3: "float_digits 0x4008000000000000 = (''3'', 1)"
  unfolding float_digits_def float_val_3 dec_exp_3 Let_def shortest_3 prod.case
  by (rule digits_3)

lemma float_str_3: "float_str 0x4008000000000000 = ''3.0''"
  unfolding float_str_def using flags_3
  by (simp only: if_False float_digits_3 Let_def prod.case format_3 append_Nil)

lemma stringify_3: "stringify (Number 0x4008000000000000) = ''3''"
  by (simp add: stringify_def float_str_3 strip_dot0_def)

lemma float_val_tenth: "float_val 0x3FB999999999999A = 3602879701896397 / 36028797018963968"
  by code_simp

lemma dec_exp_tenth: "dec_exp (3602879701896397 / 36028797018963968) = - 1"
  by (rule dec_exp_between) (simp_all add: pow10_def)

lemma shortest_tenth:
  "shortest 17 1 0x3FB999999999999A (3602879701896397 / 36028797018963968) (- 1) = (1, - 1)"
  by code_simp

lemma digits_tenth: "(strip_zeros (int_digits 1), int (length (int_digits 1)) + - 1) = (''1'', 0)"
  by code_simp

lemma format_tenth: "format_repr ''1'' 0 = ''0.1''"
  by code_simp

lemma flags_tenth: "\<not> is_nan 0x3FB999999999999A \<and> \<not> is_inf 0x3FB999999999999A \<and>
    \<not> sign_bit 0x3FB999999999999A \<and> \<not> is_zero 0x3FB999999999999A"
  by code_simp

lemma float_digits_tenth: "float_digits 0x3FB999999999999A = (''1'', 0)"
  unfolding float_digits_def float_val_tenth dec_exp_tenth Let_def shortest_tenth prod.case
  by (rule digits_tenth)

lemma float_str_tenth: "float_str 0x3FB999999999999A = ''0.1''"
  unfolding float_str_def using flags_tenth
  by (simp only: if_False float_digits_tenth Let_def prod.case format_tenth append_Nil)

lemma stringify_tenth: "stringify (Number 0x3FB999999999999A) = ''0.1''"
  by (simp add: stringify_def float_str_tenth strip_dot0_def)

text \<open>
  C9, as stated, fails: a Boolean is rendered by Python's \<open>str\<close>, which gives
  \<open>True\<close> and \<open>False\<close>, not the lowercase forms.
\<close>

theorem stringify_boolean_counterexample:
  "stringify (Boolean True) = ''True'' \<and> stringify (Boolean True) \<noteq> ''true'' \<and>
   stringify (Boolean False) = ''False'' \<and> stringify (Boolean False) \<noteq> ''false''"
  by (simp add: stringify_def)

text \<open>
  C9, amended: \<open>stringify\<close> yields \<open>nil\<close> for \<open>nil\<close>; \<open>True\<close> or \<open>False\<close>, with
  a capital, for a Boolean; the string itself for a string; and for a number Python's
  \<open>str\<close> of the float (its shortest decimal form that reads back as the same float),
  without its last two characters when they are \<open>.0\<close>: the number 3.0 displays as
  \<open>3\<close>, and 0.1 as \<open>0.1\<close>.
\<close>

theorem stringify_rule:
  "stringify Nil = ''nil'' \<and>
   stringify (Boolean True) = ''True'' \<and>
   stringify (Boolean False) = ''False'' \<and>
   stringify (String s) = s \<and>
   stringify (Number x) =
     (if \<exists>t. float_str x = t @ ''.0'' then butlast (butlast (float_str x)) else float_str x) \<and>
   stringify (Number 0x4008000000000000) = ''3'' \<and>
   stringify (Number 0x3FB999999999999A) = ''0.1''"
  by (intro conjI stringify_others stringify_number_rule stringify_3 stringify_tenth)

end
